theory Spec2Isabelle
  imports Complex_Main "HOL-Library.Multiset"
begin

section \<open>Data model (src/types.ts)\<close>

text \<open>
  The four habit keys and the two metric keys are closed sets of property names
  (\<^verbatim>\<open>keyof DayHabits\<close>, \<^verbatim>\<open>keyof DayMetrics\<close>), so each is a datatype.
\<close>

datatype HabitKey = NoPorn | Workout | IpmatStudy | NightWalk

datatype MetricKey = StudyHours | TimeWasted

text \<open>
  A JavaScript \<^verbatim>\<open>number\<close> is an IEEE-754 double.  The model keeps every special value the
  code can meet apart: the two infinities, NaN and the negative zero; \<open>Fin 0\<close> is the positive
  zero.  A finite value is an exact rational: rounding of finite results to 53 bits, overflow
  and underflow are not represented, so a statement about finite values is a statement about
  the exact arithmetic of the expressions of the source.
\<close>

datatype jsnum = Fin rat | NegZero | PInf | NInf | NaN

record DayHabits =
  noPorn :: bool
  workout :: bool
  ipmatStudy :: bool
  nightWalk :: bool

record DayMetrics =
  studyHours :: jsnum
  timeWasted :: jsnum

text \<open>
  \<open>id\<close> and \<open>dayNumber\<close> are the integers 1..365 that \<^verbatim>\<open>generateInitialData\<close> writes;
  the field \<^verbatim>\<open>id\<close> is \<open>id'\<close> here, and \<^verbatim>\<open>max\<close> of \<^verbatim>\<open>StreakInfo\<close> is \<open>max'\<close>.
\<close>

record DayRecord =
  id' :: int
  dayNumber :: int
  date :: string
  habits :: DayHabits
  metrics :: DayMetrics
  isFilled :: bool

record StreakInfo =
  current :: nat
  max' :: nat

text \<open>Property access \<^verbatim>\<open>r.habits[habit]\<close> and the spread update \<^verbatim>\<open>{ ...r.habits, [habit]: value }\<close>.\<close>

fun habit_get :: "HabitKey \<Rightarrow> DayHabits \<Rightarrow> bool" where
  "habit_get NoPorn hs = noPorn hs"
| "habit_get Workout hs = workout hs"
| "habit_get IpmatStudy hs = ipmatStudy hs"
| "habit_get NightWalk hs = nightWalk hs"

fun habit_set :: "HabitKey \<Rightarrow> bool \<Rightarrow> DayHabits \<Rightarrow> DayHabits" where
  "habit_set NoPorn v hs = hs\<lparr>noPorn := v\<rparr>"
| "habit_set Workout v hs = hs\<lparr>workout := v\<rparr>"
| "habit_set IpmatStudy v hs = hs\<lparr>ipmatStudy := v\<rparr>"
| "habit_set NightWalk v hs = hs\<lparr>nightWalk := v\<rparr>"

fun metric_get :: "MetricKey \<Rightarrow> DayMetrics \<Rightarrow> jsnum" where
  "metric_get StudyHours ms = studyHours ms"
| "metric_get TimeWasted ms = timeWasted ms"

fun metric_set :: "MetricKey \<Rightarrow> jsnum \<Rightarrow> DayMetrics \<Rightarrow> DayMetrics" where
  "metric_set StudyHours v ms = ms\<lparr>studyHours := v\<rparr>"
| "metric_set TimeWasted v ms = ms\<lparr>timeWasted := v\<rparr>"

section \<open>JavaScript numbers as the code uses them\<close>

text \<open>The rational a finite number stands for; \<open>0\<close> for the values that have none.\<close>

definition fin_val :: "jsnum \<Rightarrow> rat" where
  "fin_val x = (case x of Fin q \<Rightarrow> q | _ \<Rightarrow> 0)"

definition is_zero :: "jsnum \<Rightarrow> bool" where
  "is_zero x = (x = Fin 0 \<or> x = NegZero)"

definition is_inf :: "jsnum \<Rightarrow> bool" where
  "is_inf x = (x = PInf \<or> x = NInf)"

text \<open>The sign bit of a number other than NaN.\<close>

definition sign_neg :: "jsnum \<Rightarrow> bool" where
  "sign_neg x = (x = NegZero \<or> x = NInf \<or> fin_val x < 0)"

definition signed_inf :: "bool \<Rightarrow> jsnum" where
  "signed_inf neg = (if neg then NInf else PInf)"

definition signed_zero :: "bool \<Rightarrow> jsnum" where
  "signed_zero neg = (if neg then NegZero else Fin 0)"

text \<open>Unary minus.\<close>

definition js_neg :: "jsnum \<Rightarrow> jsnum" where
  "js_neg x = (case x of
       Fin q \<Rightarrow> (if q = 0 then NegZero else Fin (- q))
     | NegZero \<Rightarrow> Fin 0
     | PInf \<Rightarrow> NInf
     | NInf \<Rightarrow> PInf
     | NaN \<Rightarrow> NaN)"

text \<open>
  The relational operators \<^verbatim>\<open><\<close>, \<^verbatim>\<open><=\<close>, \<^verbatim>\<open>>=\<close> and the strict equality \<^verbatim>\<open>===\<close> on
  numbers: every comparison with NaN is false, and the two zeros are equal.
\<close>

definition js_lt :: "jsnum \<Rightarrow> jsnum \<Rightarrow> bool" where
  "js_lt a b =
     (if a = NaN \<or> b = NaN then False
      else if a = PInf \<or> b = NInf then False
      else if a = NInf \<or> b = PInf then True
      else fin_val a < fin_val b)"

definition js_le :: "jsnum \<Rightarrow> jsnum \<Rightarrow> bool" where
  "js_le a b =
     (if a = NaN \<or> b = NaN then False
      else if a = NInf \<or> b = PInf then True
      else if a = PInf \<or> b = NInf then False
      else fin_val a \<le> fin_val b)"

definition js_ge :: "jsnum \<Rightarrow> jsnum \<Rightarrow> bool" where
  "js_ge a b = js_le b a"


text \<open>The arithmetic operators \<^verbatim>\<open>+\<close>, \<^verbatim>\<open>-\<close>, \<^verbatim>\<open>*\<close> and \<^verbatim>\<open>/\<close> with their IEEE special cases.\<close>

definition js_add :: "jsnum \<Rightarrow> jsnum \<Rightarrow> jsnum" where
  "js_add a b =
     (if a = NaN \<or> b = NaN then NaN
      else if a = PInf then (if b = NInf then NaN else PInf)
      else if a = NInf then (if b = PInf then NaN else NInf)
      else if is_inf b then b
      else if a = NegZero \<and> b = NegZero then NegZero
      else Fin (fin_val a + fin_val b))"

definition js_sub :: "jsnum \<Rightarrow> jsnum \<Rightarrow> jsnum" where
  "js_sub a b = js_add a (js_neg b)"

definition js_mul :: "jsnum \<Rightarrow> jsnum \<Rightarrow> jsnum" where
  "js_mul a b =
     (if a = NaN \<or> b = NaN then NaN
      else if (is_inf a \<and> is_zero b) \<or> (is_zero a \<and> is_inf b) then NaN
      else if is_inf a \<or> is_inf b then signed_inf (sign_neg a \<noteq> sign_neg b)
      else if is_zero a \<or> is_zero b then signed_zero (sign_neg a \<noteq> sign_neg b)
      else Fin (fin_val a * fin_val b))"

definition js_div :: "jsnum \<Rightarrow> jsnum \<Rightarrow> jsnum" where
  "js_div a b =
     (if a = NaN \<or> b = NaN then NaN
      else if (is_inf a \<and> is_inf b) \<or> (is_zero a \<and> is_zero b) then NaN
      else if is_inf a \<or> is_zero b then signed_inf (sign_neg a \<noteq> sign_neg b)
      else if is_inf b \<or> is_zero a then signed_zero (sign_neg a \<noteq> sign_neg b)
      else Fin (fin_val a / fin_val b))"

text \<open>
  \<^verbatim>\<open>Math.round\<close>: the nearest integer, a tie going up; a value in \<open>[-1/2, 0)\<close> gives the
  negative zero; the infinities, NaN and the zeros are returned as they are.
\<close>

definition Math_round :: "jsnum \<Rightarrow> jsnum" where
  "Math_round x = (case x of
       Fin q \<Rightarrow> (if q < 0 \<and> - (1 / 2) \<le> q then NegZero else Fin (of_int \<lfloor>q + 1 / 2\<rfloor>))
     | _ \<Rightarrow> x)"

text \<open>
  \<^verbatim>\<open>Math.max\<close> and \<^verbatim>\<open>Math.min\<close> of two arguments: NaN if either is NaN, and the
  positive zero is larger than the negative zero.
\<close>

definition Math_max :: "jsnum \<Rightarrow> jsnum \<Rightarrow> jsnum" where
  "Math_max a b =
     (if a = NaN \<or> b = NaN then NaN
      else if js_lt a b then b
      else if js_lt b a then a
      else if a = NegZero then b else a)"

definition Math_min :: "jsnum \<Rightarrow> jsnum \<Rightarrow> jsnum" where
  "Math_min a b =
     (if a = NaN \<or> b = NaN then NaN
      else if js_lt a b then a
      else if js_lt b a then b
      else if a = NegZero then a else b)"

text \<open>\<^verbatim>\<open>x || y\<close> on a number \<open>x\<close>: the zeros and NaN are the falsy numbers.\<close>

definition js_or :: "jsnum \<Rightarrow> jsnum \<Rightarrow> jsnum" where
  "js_or x y = (if is_zero x \<or> x = NaN then y else x)"

subsection \<open>parseFloat\<close>

text \<open>
  \<^verbatim>\<open>parseFloat\<close> skips leading white space and reads the longest prefix that is a
  \<^verbatim>\<open>StrDecimalLiteral\<close>: an optional sign, then \<^verbatim>\<open>Infinity\<close> or decimal digits with an
  optional fraction and an optional exponent; NaN when no prefix is one.  A \<open>string\<close> is a
  list of bytes here, so the white space skipped is the ASCII white space.
\<close>

definition is_ws :: "char \<Rightarrow> bool" where
  "is_ws c = (c \<in> set [CHR '' '', CHR 0x09, CHR 0x0A, CHR 0x0B, CHR 0x0C, CHR 0x0D])"

definition is_digit :: "char \<Rightarrow> bool" where
  "is_digit c = (48 \<le> (of_char c :: nat) \<and> (of_char c :: nat) \<le> 57)"

definition digits_val :: "string \<Rightarrow> nat" where
  "digits_val ds = foldl (\<lambda>acc c. 10 * acc + ((of_char c :: nat) - 48)) 0 ds"

text \<open>The exponent part at the start of \<open>s\<close>, \<open>0\<close> when there is none.\<close>

definition exponent_part :: "string \<Rightarrow> int" where
  "exponent_part s = (case s of
       [] \<Rightarrow> 0
     | e # t \<Rightarrow>
         (if e = CHR ''e'' \<or> e = CHR ''E'' then
            (case t of
               [] \<Rightarrow> 0
             | sg # u \<Rightarrow>
                 (if sg = CHR ''-'' \<and> takeWhile is_digit u \<noteq> []
                    then - int (digits_val (takeWhile is_digit u))
                  else if sg = CHR ''+'' \<and> takeWhile is_digit u \<noteq> []
                    then int (digits_val (takeWhile is_digit u))
                  else int (digits_val (takeWhile is_digit t))))
          else 0))"

definition scale10 :: "rat \<Rightarrow> int \<Rightarrow> rat" where
  "scale10 m e = (if 0 \<le> e then m * 10 ^ nat e else m / 10 ^ nat (- e))"

definition parseUnsigned :: "string \<Rightarrow> jsnum" where
  "parseUnsigned s =
     (if take 8 s = ''Infinity'' then PInf
      else
        (let ip = takeWhile is_digit s;
             r1 = dropWhile is_digit s;
             has_dot = (r1 \<noteq> [] \<and> hd r1 = CHR ''.'');
             fp = (if has_dot then takeWhile is_digit (tl r1) else []);
             r2 = (if has_dot then dropWhile is_digit (tl r1) else r1)
         in if ip = [] \<and> fp = [] then NaN
            else Fin (scale10 (of_nat (digits_val ip) + of_nat (digits_val fp) / 10 ^ length fp)
                        (exponent_part r2))))"

definition parseFloat :: "string \<Rightarrow> jsnum" where
  "parseFloat s =
     (let t = dropWhile is_ws s
      in case t of
           [] \<Rightarrow> NaN
         | c # u \<Rightarrow>
             (if c = CHR ''-'' then js_neg (parseUnsigned u)
              else if c = CHR ''+'' then parseUnsigned u
              else parseUnsigned t))"

section \<open>The streak calculator (src/utils/calculations.ts)\<close>

text \<open>
  The first loop of \<^verbatim>\<open>calculateStreak\<close>, over the array in index order, with its two
  variables \<^verbatim>\<open>maxStreak\<close> and \<^verbatim>\<open>tempStreak\<close> as accumulators; the result is the pair
  of both when the loop ends.
\<close>

fun maxLoop :: "HabitKey \<Rightarrow> DayRecord list \<Rightarrow> nat \<Rightarrow> nat \<Rightarrow> nat \<times> nat" where
  "maxLoop habit [] maxStreak tempStreak = (maxStreak, tempStreak)"
| "maxLoop habit (r # rs) maxStreak tempStreak =
     (if habit_get habit (habits r)
      then maxLoop habit rs maxStreak (tempStreak + 1)
      else maxLoop habit rs (if tempStreak > maxStreak then tempStreak else maxStreak) 0)"

text \<open>
  \<^verbatim>\<open>records.filter(r => r.isFilled).sort((a, b) => b.dayNumber - a.dayNumber)\<close>:
  \<^verbatim>\<open>Array.prototype.sort\<close> is stable, and so is the insertion sort \<open>sort_key\<close>;
  descending order of \<open>dayNumber\<close> is ascending order of its negation.
\<close>

definition filledSorted :: "DayRecord list \<Rightarrow> DayRecord list" where
  "filledSorted records = sort_key (\<lambda>r. - dayNumber r) (filter isFilled records)"

text \<open>The \<^verbatim>\<open>for (const record of filledSorted)\<close> loop with its \<^verbatim>\<open>break\<close>.\<close>

fun currentLoop :: "HabitKey \<Rightarrow> DayRecord list \<Rightarrow> nat \<Rightarrow> nat" where
  "currentLoop habit [] cur = cur"
| "currentLoop habit (r # rs) cur =
     (if habit_get habit (habits r) then currentLoop habit rs (cur + 1) else cur)"

definition calculateStreak :: "DayRecord list \<Rightarrow> HabitKey \<Rightarrow> StreakInfo" where
  "calculateStreak records habit =
     (let (maxStreak0, tempStreak) = maxLoop habit records 0 0;
          maxStreak = (if tempStreak > maxStreak0 then tempStreak else maxStreak0);
          fs = filledSorted records
      in if length fs = 0 then \<lparr>current = 0, max' = maxStreak\<rparr>
         else \<lparr>current = currentLoop habit fs 0, max' = maxStreak\<rparr>)"

section \<open>The mutation handlers (src/App.tsx)\<close>

text \<open>
  \<^verbatim>\<open>setRecords(prev => prev.map(r => r.id === id ? {...} : r))\<close>: the handler is the function
  from the previous collection to the next one.
\<close>

definition handleHabitChange :: "int \<Rightarrow> HabitKey \<Rightarrow> bool \<Rightarrow> DayRecord list \<Rightarrow> DayRecord list" where
  "handleHabitChange i habit v prev =
     map (\<lambda>r. if id' r = i
               then r\<lparr>isFilled := True, habits := habit_set habit v (habits r)\<rparr>
               else r) prev"

definition handleMetricChange :: "int \<Rightarrow> MetricKey \<Rightarrow> string \<Rightarrow> DayRecord list \<Rightarrow> DayRecord list" where
  "handleMetricChange i metric v prev =
     (let numValue = Math_min (Fin 24) (Math_max (Fin 0) (js_or (parseFloat v) (Fin 0)))
      in map (\<lambda>r. if id' r = i
                   then r\<lparr>isFilled := True, metrics := metric_set metric numValue (metrics r)\<rparr>
                   else r) prev)"

text \<open>
  \<^verbatim>\<open>generateInitialData\<close>: the 365 untouched records.  The text of \<^verbatim>\<open>date\<close> is what
  \<^verbatim>\<open>formatDate\<close> makes of the \<open>i\<close>-th day of the start year; it is computed by the
  \<^verbatim>\<open>Date\<close> library from the clock and the locale, and is the parameter \<open>fmt\<close>.
\<close>

definition generateInitialData :: "(nat \<Rightarrow> string) \<Rightarrow> DayRecord list" where
  "generateInitialData fmt =
     map (\<lambda>i. \<lparr>id' = int i, dayNumber = int i, date = fmt i,
               habits = \<lparr>noPorn = False, workout = False, ipmatStudy = False, nightWalk = False\<rparr>,
               metrics = \<lparr>studyHours = Fin 0, timeWasted = Fin 0\<rparr>,
               isFilled = False\<rparr>) [1..<366]"

text \<open>
  The collections the application can hold: the initial data, changed by any sequence of
  calls of the two handlers.
\<close>

inductive reachable :: "DayRecord list \<Rightarrow> bool" where
  init: "reachable (generateInitialData fmt)"
| habit: "reachable rs \<Longrightarrow> reachable (handleHabitChange i h v rs)"
| metric: "reachable rs \<Longrightarrow> reachable (handleMetricChange i m s rs)"

section \<open>Monthly goals (src/App.tsx)\<close>

text \<open>
  The field \<^verbatim>\<open>month\<close> of a goal is a string, but \<^verbatim>\<open>updateGoal\<close> can write a number into any
  property named by \<^verbatim>\<open>keyof MonthlyGoal\<close>, and an entry built from an absent one has no
  \<^verbatim>\<open>month\<close> at all.
\<close>

datatype jsval = Undefined | Str string | Num jsnum

datatype GoalKey = Month | StudyTarget | WasteLimit

record MonthlyGoal =
  month :: jsval
  studyTarget :: jsnum
  wasteLimit :: jsnum

fun goal_set :: "GoalKey \<Rightarrow> jsnum \<Rightarrow> MonthlyGoal \<Rightarrow> MonthlyGoal" where
  "goal_set Month v g = g\<lparr>month := Num v\<rparr>"
| "goal_set StudyTarget v g = g\<lparr>studyTarget := v\<rparr>"
| "goal_set WasteLimit v g = g\<lparr>wasteLimit := v\<rparr>"

definition monthsList :: "string list" where
  "monthsList = [''January'', ''February'', ''March'', ''April'', ''May'', ''June'', ''July'',
     ''August'', ''September'', ''October'', ''November'', ''December'']"

text \<open>The goals built when nothing is stored: 150 and 30 for each of the twelve months.\<close>

definition initialGoals :: "string \<rightharpoonup> MonthlyGoal" where
  "initialGoals =
     foldl (\<lambda>g m. g(m \<mapsto> \<lparr>month = Str m, studyTarget = Fin 150, wasteLimit = Fin 30\<rparr>))
       Map.empty monthsList"

text \<open>
  \<^verbatim>\<open>{ ...prev, [month]: { ...prev[month], [field]: num } }\<close>.  The spread of an absent
  entry is the empty object; its missing numeric properties read as \<^verbatim>\<open>undefined\<close>, which
  the comparisons and the arithmetic of \<^verbatim>\<open>monthlyData\<close> convert to NaN.
\<close>

definition emptyGoal :: MonthlyGoal where
  "emptyGoal = \<lparr>month = Undefined, studyTarget = NaN, wasteLimit = NaN\<rparr>"

definition updateGoal :: "string \<Rightarrow> GoalKey \<Rightarrow> string \<Rightarrow> (string \<rightharpoonup> MonthlyGoal) \<Rightarrow> (string \<rightharpoonup> MonthlyGoal)" where
  "updateGoal m field v prev =
     (let num = js_or (parseFloat v) (Fin 0)
      in prev(m \<mapsto> goal_set field num (case prev m of None \<Rightarrow> emptyGoal | Some g \<Rightarrow> g)))"

inductive reachableGoals :: "(string \<rightharpoonup> MonthlyGoal) \<Rightarrow> bool" where
  init_goals: "reachableGoals initialGoals"
| update: "reachableGoals g \<Longrightarrow> reachableGoals (updateGoal m field v g)"

section \<open>Monthly aggregation and goal compliance (src/App.tsx)\<close>

text \<open>
  The \<^verbatim>\<open>filter(...).reduce(...)\<close> of \<^verbatim>\<open>monthlyData\<close>: the pair \<open>(study, wasted)\<close>.
  \<^verbatim>\<open>getMonthName\<close> parses the date text and asks the locale for the month name; it is the
  parameter \<open>getMonthName\<close>.
\<close>

definition monthStats :: "(string \<Rightarrow> string) \<Rightarrow> DayRecord list \<Rightarrow> string \<Rightarrow> jsnum \<times> jsnum" where
  "monthStats getMonthName records m =
     foldl (\<lambda>acc r. (js_add (fst acc) (studyHours (metrics r)),
                     js_add (snd acc) (timeWasted (metrics r))))
       (Fin 0, Fin 0) (filter (\<lambda>r. getMonthName (date r) = m) records)"

text \<open>The two percentages, as functions of the aggregate and of the goal's number.\<close>

definition achievementOf :: "jsnum \<Rightarrow> jsnum \<Rightarrow> jsnum" where
  "achievementOf study target =
     (if js_ge study target then Fin 100
      else Math_round (js_mul (js_div study target) (Fin 100)))"

definition wasteComplianceOf :: "jsnum \<Rightarrow> jsnum \<Rightarrow> jsnum" where
  "wasteComplianceOf wasted limit =
     (if js_le wasted limit then Fin 100
      else Math_max (Fin 0)
             (Math_round (js_mul (js_sub (Fin 1) (js_div (js_sub wasted limit) limit)) (Fin 100))))"

record MonthEntry =
  entryMonth :: string
  actualStudy :: jsnum
  goalStudy :: jsnum
  actualWaste :: jsnum
  limitWaste :: jsnum
  achievement :: jsnum
  wasteCompliance :: jsnum

definition monthEntry :: "(string \<Rightarrow> string) \<Rightarrow> DayRecord list \<Rightarrow> MonthlyGoal \<Rightarrow> string \<Rightarrow> MonthEntry" where
  "monthEntry getMonthName records goal m =
     (let stats = monthStats getMonthName records m
      in \<lparr>entryMonth = m,
          actualStudy = fst stats,
          goalStudy = studyTarget goal,
          actualWaste = snd stats,
          limitWaste = wasteLimit goal,
          achievement = achievementOf (fst stats) (studyTarget goal),
          wasteCompliance = wasteComplianceOf (snd stats) (wasteLimit goal)\<rparr>)"

text \<open>
  \<^verbatim>\<open>monthsList.map(m => ...)\<close>.  Reading a property of \<^verbatim>\<open>goals[m]\<close> when the month has
  no entry throws a TypeError, which ends the whole computation.
\<close>

datatype error = TypeError

fun monthRows :: "(string \<Rightarrow> string) \<Rightarrow> DayRecord list \<Rightarrow> (string \<rightharpoonup> MonthlyGoal) \<Rightarrow> string list \<Rightarrow> error + MonthEntry list" where
  "monthRows getMonthName records goals [] = Inr []"
| "monthRows getMonthName records goals (m # ms) =
     (case goals m of
        None \<Rightarrow> Inl TypeError
      | Some goal \<Rightarrow>
          (case monthRows getMonthName records goals ms of
             Inl e \<Rightarrow> Inl e
           | Inr es \<Rightarrow> Inr (monthEntry getMonthName records goal m # es)))"

definition monthlyData :: "(string \<Rightarrow> string) \<Rightarrow> DayRecord list \<Rightarrow> (string \<rightharpoonup> MonthlyGoal) \<Rightarrow> error + MonthEntry list" where
  "monthlyData getMonthName records goals = monthRows getMonthName records goals monthsList"

section \<open>The claimed behaviour, for comparison\<close>




text \<open>
  What the metric handler stores, in the words of the specification: the parsed number with
  an invalid parse read as 0, clamped to \<open>[0, 24]\<close>.
\<close>

definition clamp24 :: "jsnum \<Rightarrow> rat" where
  "clamp24 x = (case x of
       Fin q \<Rightarrow> min 24 (max 0 q)
     | NegZero \<Rightarrow> 0
     | PInf \<Rightarrow> 24
     | NInf \<Rightarrow> 0
     | NaN \<Rightarrow> 0)"

definition metric_in_range :: "jsnum \<Rightarrow> bool" where
  "metric_in_range x = (case x of Fin q \<Rightarrow> 0 \<le> q \<and> q \<le> 24 | _ \<Rightarrow> False)"


text \<open>A finite number that is not negative; a limit that is one, or \<open>+Infinity\<close>; a percentage.\<close>

definition finite_nonneg :: "jsnum \<Rightarrow> bool" where
  "finite_nonneg x = (case x of Fin q \<Rightarrow> 0 \<le> q | _ \<Rightarrow> False)"


definition is_percentage :: "jsnum \<Rightarrow> bool" where
  "is_percentage x = (case x of Fin q \<Rightarrow> 0 \<le> q \<and> q \<le> 100 | _ \<Rightarrow> False)"

section \<open>Example collections\<close>

text \<open>
  A record of day \<open>i\<close> with the given \<open>isFilled\<close> and \<open>workout\<close> flag, the other habits
  false and the metrics zero.
\<close>

definition dayRec :: "int \<Rightarrow> bool \<Rightarrow> bool \<Rightarrow> DayRecord" where
  "dayRec i filled w =
     \<lparr>id' = i, dayNumber = i, date = [],
      habits = \<lparr>noPorn = False, workout = w, ipmatStudy = False, nightWalk = False\<rparr>,
      metrics = \<lparr>studyHours = Fin 0, timeWasted = Fin 0\<rparr>,
      isFilled = filled\<rparr>"

definition twoDays :: "DayRecord list" where
  "twoDays = [dayRec 1 True True, dayRec 2 False False]"

text \<open>Three filled days: workout on days 1 and 2, none on day 3.\<close>

definition threeDays :: "DayRecord list" where
  "threeDays = [dayRec 1 True True, dayRec 2 True True, dayRec 3 True False]"

text \<open>The initial year with a workout logged on day 1 and on day 3, and day 2 left untouched.\<close>

definition gapYear :: "DayRecord list" where
  "gapYear =
     handleHabitChange 3 Workout True
       (handleHabitChange 1 Workout True (generateInitialData (\<lambda>i. [])))"

text \<open>The default goals after \<^verbatim>\<open>-1\<close> is typed into the waste limit of January.\<close>

definition negativeLimitGoals :: "string \<rightharpoonup> MonthlyGoal" where
  "negativeLimitGoals = updateGoal ''January'' WasteLimit ''-1'' initialGoals"

text \<open>The default goals after \<^verbatim>\<open>0\<close> is typed into both goals of January.\<close>

definition zeroGoals :: "string \<rightharpoonup> MonthlyGoal" where
  "zeroGoals =
     updateGoal ''January'' WasteLimit ''0'' (updateGoal ''January'' StudyTarget ''0'' initialGoals)"


section \<open>The current streak\<close>

lemma currentLoop_takeWhile:
  "currentLoop habit rs cur = cur + length (takeWhile (\<lambda>r. habit_get habit (habits r)) rs)"
  by (induction rs arbitrary: cur) auto

lemma current_calculateStreak:
  "current (calculateStreak records habit) =
     length (takeWhile (\<lambda>r. habit_get habit (habits r)) (filledSorted records))"
  by (cases "filledSorted records = []")
     (simp_all add: calculateStreak_def Let_def currentLoop_takeWhile split: prod.splits)

lemma filledSorted_filter: "filledSorted (filter isFilled records) = filledSorted records"
  by (simp add: filledSorted_def)

lemma filledSorted_descending:
  "sorted_wrt (\<lambda>a b. dayNumber b \<le> dayNumber a) (filledSorted records)"
proof -
  have "sorted (map (\<lambda>r. - dayNumber r) (filledSorted records))"
    unfolding filledSorted_def by (rule sorted_sort_key)
  then show ?thesis by (simp add: sorted_map)
qed

text \<open>
  C1: \<open>current\<close> is the number of leading records with the habit flag set in the list of the
  filled records ordered by \<open>dayNumber\<close> descending.  That list holds exactly the filled
  records and is in descending order; the unfilled records have no influence on \<open>current\<close>
  (it is the same on the collection with them removed); and \<open>current\<close> is 0 when no record
  is filled.
\<close>

theorem current_streak_spec:
  "current (calculateStreak records habit) =
     length (takeWhile (\<lambda>r. habit_get habit (habits r)) (filledSorted records))
   \<and> mset (filledSorted records) = filter_mset isFilled (mset records)
   \<and> sorted_wrt (\<lambda>a b. dayNumber b \<le> dayNumber a) (filledSorted records)
   \<and> current (calculateStreak records habit) = current (calculateStreak (filter isFilled records) habit)
   \<and> ((\<forall>r \<in> set records. \<not> isFilled r) \<longrightarrow> current (calculateStreak records habit) = 0)"
proof -
  have perm: "mset (filledSorted records) = filter_mset isFilled (mset records)"
    by (simp add: filledSorted_def)
  have skip: "current (calculateStreak records habit) =
      current (calculateStreak (filter isFilled records) habit)"
    by (simp add: current_calculateStreak filledSorted_filter)
  have none: "(\<forall>r \<in> set records. \<not> isFilled r) \<longrightarrow> current (calculateStreak records habit) = 0"
    by (simp add: current_calculateStreak filledSorted_def)
  show ?thesis
    using perm skip none current_calculateStreak filledSorted_descending by blast
qed

theorem current_streak_spec_witness:
  "current (calculateStreak [dayRec 1 False True, dayRec 2 False False] Workout) = 0"
proof -
  have unfilled: "\<forall>r \<in> set [dayRec 1 False True, dayRec 2 False False]. \<not> isFilled r"
    by (simp add: dayRec_def)
  from current_streak_spec [of "[dayRec 1 False True, dayRec 2 False False]" Workout] unfilled
  show ?thesis by blast
qed

section \<open>Monotonicity and frame of the handlers\<close>

text \<open>
  C9: \<open>isFilled\<close> is monotonic.  Both handlers keep the length of the collection, and a
  record that is filled before a call of either handler is filled after it.
\<close>

theorem isFilled_monotonic:
  "length (handleHabitChange i h v rs) = length rs
   \<and> length (handleMetricChange i m s rs) = length rs
   \<and> (\<forall>k < length rs. isFilled (rs ! k) \<longrightarrow>
         isFilled (handleHabitChange i h v rs ! k) \<and> isFilled (handleMetricChange i m s rs ! k))"
  by (simp add: handleHabitChange_def handleMetricChange_def Let_def)

theorem isFilled_monotonic_witness:
  "(0::nat) < length [dayRec 1 True False] \<and> isFilled ([dayRec 1 True False] ! 0)
   \<and> isFilled (handleHabitChange 1 Workout False [dayRec 1 True False] ! 0)
   \<and> isFilled (handleMetricChange 1 StudyHours ''7.5'' [dayRec 1 True False] ! 0)"
  using isFilled_monotonic [of 1 Workout False "[dayRec 1 True False]" StudyHours "''7.5''"]
  by (simp add: dayRec_def)

lemma habit_get_set_other: "h' \<noteq> h \<Longrightarrow> habit_get h' (habit_set h v hs) = habit_get h' hs"
  by (cases h; cases h') simp_all

lemma metric_get_set_other: "m' \<noteq> m \<Longrightarrow> metric_get m' (metric_set m v ms) = metric_get m' ms"
  by (cases m; cases m') simp_all

lemma map_id_if_none: "(\<forall>r \<in> set rs. \<not> P r) \<Longrightarrow> map (\<lambda>r. if P r then f r else r) rs = rs"
  by (induction rs) auto

text \<open>
  C10: the frame of the handlers.  A call with day id \<open>d\<close> returns every record whose id is
  not \<open>d\<close> as it was, at its position; in every record the id, the day number and the date
  are as before; the habit handler leaves the metrics and the other habit flags alone, the
  metric handler the habits and the other metric; and when no record has id \<open>d\<close> the
  collection is returned unchanged.
\<close>

theorem handlers_frame:
  "length (handleHabitChange d h v rs) = length rs
   \<and> length (handleMetricChange d m s rs) = length rs
   \<and> (\<forall>k < length rs.
        (id' (rs ! k) \<noteq> d \<longrightarrow>
           handleHabitChange d h v rs ! k = rs ! k \<and> handleMetricChange d m s rs ! k = rs ! k)
        \<and> id' (handleHabitChange d h v rs ! k) = id' (rs ! k)
        \<and> dayNumber (handleHabitChange d h v rs ! k) = dayNumber (rs ! k)
        \<and> date (handleHabitChange d h v rs ! k) = date (rs ! k)
        \<and> metrics (handleHabitChange d h v rs ! k) = metrics (rs ! k)
        \<and> (\<forall>h'. h' \<noteq> h \<longrightarrow>
              habit_get h' (habits (handleHabitChange d h v rs ! k)) = habit_get h' (habits (rs ! k)))
        \<and> id' (handleMetricChange d m s rs ! k) = id' (rs ! k)
        \<and> dayNumber (handleMetricChange d m s rs ! k) = dayNumber (rs ! k)
        \<and> date (handleMetricChange d m s rs ! k) = date (rs ! k)
        \<and> habits (handleMetricChange d m s rs ! k) = habits (rs ! k)
        \<and> (\<forall>m'. m' \<noteq> m \<longrightarrow>
              metric_get m' (metrics (handleMetricChange d m s rs ! k)) = metric_get m' (metrics (rs ! k))))
   \<and> ((\<forall>r \<in> set rs. id' r \<noteq> d) \<longrightarrow>
         handleHabitChange d h v rs = rs \<and> handleMetricChange d m s rs = rs)"
proof -
  have none: "(\<forall>r \<in> set rs. id' r \<noteq> d) \<longrightarrow>
         handleHabitChange d h v rs = rs \<and> handleMetricChange d m s rs = rs"
    using map_id_if_none[of rs "\<lambda>r. id' r = d"]
    by (simp add: handleHabitChange_def handleMetricChange_def Let_def)
  show ?thesis
    using none
    by (simp add: handleHabitChange_def handleMetricChange_def Let_def
          habit_get_set_other metric_get_set_other)
qed

theorem handlers_frame_witness:
  "handleHabitChange 5 Workout True twoDays = twoDays
   \<and> handleMetricChange 5 StudyHours ''3'' twoDays = twoDays
   \<and> (0::nat) < length twoDays \<and> id' (twoDays ! 0) \<noteq> 2
   \<and> handleHabitChange 2 Workout True twoDays ! 0 = twoDays ! 0
   \<and> handleMetricChange 2 StudyHours ''3'' twoDays ! 0 = twoDays ! 0"
proof -
  have h1: "\<forall>r \<in> set twoDays. id' r \<noteq> 5"
    by (simp add: twoDays_def dayRec_def)
  have h2: "(0::nat) < length twoDays"
    by (simp add: twoDays_def)
  have h3: "id' (twoDays ! 0) \<noteq> 2"
    by (simp add: twoDays_def dayRec_def)
  from handlers_frame [of 5 Workout True twoDays StudyHours "''3''"] h1
  have a: "handleHabitChange 5 Workout True twoDays = twoDays
      \<and> handleMetricChange 5 StudyHours ''3'' twoDays = twoDays"
    by blast
  from handlers_frame [of 2 Workout True twoDays StudyHours "''3''"] h2 h3
  have b: "handleHabitChange 2 Workout True twoDays ! 0 = twoDays ! 0
      \<and> handleMetricChange 2 StudyHours ''3'' twoDays ! 0 = twoDays ! 0"
    by blast
  show ?thesis
    using h1 h2 h3 a b by simp
qed

section \<open>Streaks and the handlers\<close>

subsection \<open>Reachable collections\<close>

lemma habit_get_set: "habit_get h' (habit_set h v hs) = (if h' = h then v else habit_get h' hs)"
  by (cases h; cases h') simp_all





lemma reachable_gapYear: "reachable gapYear"
  unfolding gapYear_def by (intro reachable.habit reachable.init)

lemma gapYear_streak: "calculateStreak gapYear Workout = \<lparr>current = 2, max' = 1\<rparr>"
  by code_simp

subsection \<open>The historical maximum\<close>







subsection \<open>No order between \<open>current\<close> and \<open>max\<close>\<close>

text \<open>
  C7: some collection reachable through the handlers has \<open>current\<close> strictly greater than
  \<open>max\<close>: with a workout logged on days 1 and 3 of the initial year and day 2 untouched,
  \<open>current\<close> is 2 (the gap is skipped) and \<open>max\<close> is 1 (the gap breaks the run).
\<close>

theorem current_exceeds_max:
  "\<exists>records habit. reachable records
     \<and> max' (calculateStreak records habit) < current (calculateStreak records habit)"
proof (intro exI conjI)
  show "reachable gapYear" by (rule reachable_gapYear)
  show "max' (calculateStreak gapYear Workout) < current (calculateStreak gapYear Workout)"
    by (simp add: gapYear_streak)
qed

subsection \<open>Toggling the most recently filled day\<close>

lemma hd_sort_key:
  assumes "xs \<noteq> []"
  shows "hd (sort_key k xs) \<in> set xs"
    and "\<forall>x \<in> set xs. k (hd (sort_key k xs)) \<le> k x"
    and "hd (sort_key k xs) = hd (filter (\<lambda>x. k x = k (hd (sort_key k xs))) xs)"
proof -
  from assms have "sort_key k xs \<noteq> []"
    by (metis length_0_conv length_sort)
  then obtain y ys where ys: "sort_key k xs = y # ys"
    by (cases "sort_key k xs") auto
  have same: "set (y # ys) = set xs"
    using set_sort [of k xs] by (simp only: ys)
  then have "y \<in> set xs"
    by auto
  then show "hd (sort_key k xs) \<in> set xs"
    by (simp add: ys)
  have "sorted (map k (y # ys))"
    using sorted_sort_key [of k xs] by (simp only: ys)
  then have le: "\<forall>x \<in> set (y # ys). k y \<le> k x"
    by auto
  with same show "\<forall>x \<in> set xs. k (hd (sort_key k xs)) \<le> k x"
    by (simp add: ys)
  have "hd (filter (\<lambda>x. k x = k y) (sort_key k xs)) = y"
    by (simp add: ys)
  then show "hd (sort_key k xs) = hd (filter (\<lambda>x. k x = k (hd (sort_key k xs))) xs)"
    by (simp add: ys sort_key_stable [of k "k y" xs, symmetric] del: sort_key_simps)
qed

lemma hd_filter_stronger:
  assumes "\<And>x. P x \<Longrightarrow> Q x" and "filter Q xs \<noteq> []" and "P (hd (filter Q xs))"
  shows "hd (filter P xs) = hd (filter Q xs)"
  using assms by (induction xs) (auto split: if_splits)


lemma toggled_head_true:
  assumes nonempty: "filledSorted records \<noteq> []"
  shows "filledSorted (handleHabitChange (id' (hd (filledSorted records))) habit True records) \<noteq> []
    \<and> habit_get habit (habits (hd (filledSorted
          (handleHabitChange (id' (hd (filledSorted records))) habit True records))))"
proof -
  define k where "k = (\<lambda>r::DayRecord. - dayNumber r)"
  define r0 where "r0 = hd (filledSorted records)"
  define upd where "upd = (\<lambda>r::DayRecord. if id' r = id' r0
      then r\<lparr>isFilled := True, habits := habit_set habit True (habits r)\<rparr> else r)"
  define new where "new = handleHabitChange (id' r0) habit True records"
  define y where "y = hd (filledSorted new)"
  let ?F = "filter isFilled records"
  let ?F' = "filter isFilled new"
  have new_map: "new = map upd records"
    by (simp add: new_def upd_def handleHabitChange_def)
  have k_upd: "k (upd r) = k r" for r
    by (simp add: k_def upd_def)
  have filled_upd: "isFilled r \<Longrightarrow> isFilled (upd r)" for r
    by (simp add: upd_def)
  have flag_upd: "id' r = id' r0 \<Longrightarrow> habit_get habit (habits (upd r))" for r
    by (simp add: upd_def habit_get_set)
  have upd_other: "id' r \<noteq> id' r0 \<Longrightarrow> upd r = r" for r
    by (simp add: upd_def)
  have F: "?F \<noteq> []"
    using nonempty by (auto simp: filledSorted_def)
  have r0_sort: "r0 = hd (sort_key k ?F)"
    by (simp add: r0_def filledSorted_def k_def)
  have r0_in: "r0 \<in> set ?F"
    using hd_sort_key(1) [OF F, of k] by (simp add: r0_sort)
  have r0_min: "\<forall>x \<in> set ?F. k r0 \<le> k x"
    using hd_sort_key(2) [OF F, of k] by (simp add: r0_sort)
  have r0_first: "r0 = hd (filter (\<lambda>x. isFilled x \<and> k x = k r0) records)"
    using hd_sort_key(3) [OF F, of k] by (simp add: r0_sort [symmetric])
  have upd_r0_in: "upd r0 \<in> set ?F'"
    using r0_in by (auto simp: new_map filled_upd)
  then have F': "?F' \<noteq> []"
    by (metis empty_iff list.set(1))
  have y_sort: "y = hd (sort_key k ?F')"
    by (simp add: y_def filledSorted_def k_def)
  have y_in: "y \<in> set ?F'"
    using hd_sort_key(1) [OF F', of k] by (simp add: y_sort)
  have y_min: "\<forall>x \<in> set ?F'. k y \<le> k x"
    using hd_sort_key(2) [OF F', of k] by (simp add: y_sort)
  have y_first: "y = hd (filter (\<lambda>x. isFilled x \<and> k x = k y) new)"
    using hd_sort_key(3) [OF F', of k] by (simp add: y_sort [symmetric])
  have flag_y: "habit_get habit (habits y)"
  proof (rule ccontr)
    assume no: "\<not> habit_get habit (habits y)"
    have unchanged: "id' z \<noteq> id' r0 \<and> y = z" if "y = upd z" for z
      using that no flag_upd [of z] upd_other [of z] by auto
    from y_in obtain z0 where "z0 \<in> set records" and "y = upd z0"
      by (auto simp: new_map)
    with unchanged [of z0] have y_rec: "y \<in> set records" and y_id: "id' y \<noteq> id' r0"
      by auto
    from y_in have y_filled: "isFilled y"
      by simp
    have "k y \<le> k r0"
      using y_min upd_r0_in k_upd [of r0] by auto
    moreover have "k r0 \<le> k y"
      using r0_min y_rec y_filled by simp
    ultimately have key: "k y = k r0"
      by simp
    let ?P = "\<lambda>x. isFilled x \<and> k x = k r0"
    let ?Q = "\<lambda>x. isFilled (upd x) \<and> k x = k r0"
    have filter_new: "filter (\<lambda>x. isFilled x \<and> k x = k y) new = map upd (filter ?Q records)"
      by (simp add: new_map filter_map comp_def k_upd key)
    have Q_r0: "?Q r0"
      using r0_in by (simp add: filled_upd)
    have Q_nonempty: "filter ?Q records \<noteq> []"
      using r0_in Q_r0 by (auto simp: filter_empty_conv)
    define z where "z = hd (filter ?Q records)"
    have "y = upd z"
      using y_first Q_nonempty by (simp add: filter_new z_def hd_map)
    with unchanged [of z] have z_id: "id' z \<noteq> id' r0" and yz: "y = z"
      by auto
    have "?P (hd (filter ?Q records))"
      using y_filled key yz by (simp add: z_def)
    then have "hd (filter ?P records) = hd (filter ?Q records)"
      using Q_nonempty by (intro hd_filter_stronger) (auto simp: filled_upd)
    then have "r0 = z"
      using r0_first by (simp add: z_def)
    with z_id show False
      by simp
  qed
  have "filledSorted new \<noteq> []"
    using F' by (metis filledSorted_def length_0_conv length_sort)
  with flag_y show ?thesis
    by (simp add: y_def new_def r0_def)
qed

lemma insort_key_map_same_key:
  assumes "\<And>x. k (f x) = k x"
  shows "insort_key k (f x) (map f ys) = map f (insort_key k x ys)"
  by (induction ys) (simp_all add: assms)

lemma sort_key_map_same_key:
  assumes "\<And>x. k (f x) = k x"
  shows "sort_key k (map f xs) = map f (sort_key k xs)"
proof (induction xs)
  case Nil
  show ?case by simp
next
  case (Cons x xs)
  have "insort_key k (f x) (map f (sort_key k xs)) = map f (insort_key k x (sort_key k xs))"
    using assms by (rule insort_key_map_same_key)
  with Cons show ?case by simp
qed

lemma toggled_exact:
  assumes nonempty: "filledSorted records \<noteq> []"
    and ids: "distinct (map id' records)"
  shows "filledSorted (handleHabitChange (id' (hd (filledSorted records))) habit True records)
    = (hd (filledSorted records))\<lparr>isFilled := True,
          habits := habit_set habit True (habits (hd (filledSorted records)))\<rparr>
      # tl (filledSorted records)"
proof -
  define k where "k = (\<lambda>r::DayRecord. - dayNumber r)"
  define r0 where "r0 = hd (filledSorted records)"
  define upd where "upd = (\<lambda>r::DayRecord. if id' r = id' r0
      then r\<lparr>isFilled := True, habits := habit_set habit True (habits r)\<rparr> else r)"
  let ?F = "filter isFilled records"
  have new_map: "handleHabitChange (id' r0) habit True records = map upd records"
    by (simp add: upd_def handleHabitChange_def)
  have k_upd: "k (upd r) = k r" for r
    by (simp add: k_def upd_def)
  have F: "?F \<noteq> []"
    using nonempty by (auto simp: filledSorted_def)
  have fs: "filledSorted records = r0 # tl (filledSorted records)"
    using nonempty by (simp add: r0_def)
  have r0_in: "r0 \<in> set ?F"
    using hd_sort_key(1) [OF F, of "\<lambda>r. - dayNumber r"] by (simp add: r0_def filledSorted_def)
  have inj: "inj_on id' (set records)"
    using ids by (simp add: distinct_map)
  have only: "x = r0" if "x \<in> set records" and "id' x = id' r0" for x
    using inj that r0_in by (auto dest: inj_onD)
  have filled_same: "isFilled (upd x) = isFilled x" if "x \<in> set records" for x
    using only [OF that] r0_in by (auto simp: upd_def)
  have "filter isFilled (map upd records) = map upd ?F"
    by (simp add: filter_map comp_def filled_same cong: filter_cong)
  then have sorted_new: "filledSorted (map upd records) = map upd (filledSorted records)"
    using sort_key_map_same_key [of k upd ?F] k_upd
    by (simp add: filledSorted_def k_def)
  have "distinct records"
    using ids by (simp add: distinct_map)
  then have "distinct (filledSorted records)"
    by (simp add: filledSorted_def)
  then have "r0 \<notin> set (tl (filledSorted records))"
    using fs by (metis distinct.simps(2))
  moreover have "set (tl (filledSorted records)) \<subseteq> set records"
    using fs by (metis filledSorted_def filter_is_subset list.set_sel(2) nonempty set_sort subsetD subsetI)
  ultimately have "\<forall>x \<in> set (tl (filledSorted records)). upd x = x"
    using only by (auto simp: upd_def)
  then have tail: "map upd (tl (filledSorted records)) = tl (filledSorted records)"
    by (simp add: map_idI)
  have "map upd (filledSorted records) = upd r0 # map upd (tl (filledSorted records))"
    by (subst fs) simp
  with tail sorted_new new_map show ?thesis
    by (simp add: r0_def [symmetric] upd_def)
qed

text \<open>
  C6, as amended: when the most recently filled day has the habit flag false, \<open>current\<close> is 0,
  and after the handler sets the flag of that day \<open>current\<close> is at least 1: it never
  decreases.  The increase is not limited to 1: when the ids are distinct, the new value is 1
  plus the number of filled days with the flag set that come right before the toggled day.
\<close>

theorem toggle_latest_never_decreases:
  assumes "filledSorted records \<noteq> []"
    and "\<not> habit_get habit (habits (hd (filledSorted records)))"
  shows "current (calculateStreak records habit) = 0
    \<and> 1 \<le> current (calculateStreak
          (handleHabitChange (id' (hd (filledSorted records))) habit True records) habit)
    \<and> (distinct (map id' records) \<longrightarrow>
         current (calculateStreak
           (handleHabitChange (id' (hd (filledSorted records))) habit True records) habit)
         = 1 + length (takeWhile (\<lambda>r. habit_get habit (habits r)) (tl (filledSorted records))))"
proof -
  from assms have "takeWhile (\<lambda>r. habit_get habit (habits r)) (filledSorted records) = []"
    by (cases "filledSorted records") auto
  then have before: "current (calculateStreak records habit) = 0"
    by (simp add: current_calculateStreak)
  let ?new = "handleHabitChange (id' (hd (filledSorted records))) habit True records"
  from toggled_head_true [OF assms(1), of habit]
  have "takeWhile (\<lambda>r. habit_get habit (habits r)) (filledSorted ?new) \<noteq> []"
    by (cases "filledSorted ?new") auto
  then have after: "1 \<le> current (calculateStreak ?new habit)"
    by (simp add: current_calculateStreak Suc_le_eq)
  have exact: "current (calculateStreak ?new habit)
      = 1 + length (takeWhile (\<lambda>r. habit_get habit (habits r)) (tl (filledSorted records)))"
    if "distinct (map id' records)"
    by (simp add: current_calculateStreak toggled_exact [OF assms(1) that] habit_get_set)
  from before after exact show ?thesis
    by blast
qed

theorem toggle_latest_never_decreases_witness:
  "current (calculateStreak threeDays Workout) = 0
   \<and> current (calculateStreak (handleHabitChange 3 Workout True threeDays) Workout) = 3"
proof -
  have sorted3: "filledSorted threeDays = [dayRec 3 True False, dayRec 2 True True, dayRec 1 True True]"
    by (simp add: filledSorted_def threeDays_def dayRec_def)
  have nonempty: "filledSorted threeDays \<noteq> []"
    by (simp add: sorted3)
  have latest: "\<not> habit_get Workout (habits (hd (filledSorted threeDays)))"
    by (simp add: sorted3 dayRec_def)
  have ids: "distinct (map id' threeDays)"
    by (simp add: threeDays_def dayRec_def)
  have day: "id' (hd (filledSorted threeDays)) = 3"
    by (simp add: sorted3 dayRec_def)
  from toggle_latest_never_decreases [OF nonempty latest] ids
  show ?thesis
    by (simp add: day sorted3 dayRec_def)
qed

text \<open>
  C6 as stated fails on three filled days with the workout flag true, true, false: toggling
  day 3 takes \<open>current\<close> from 0 to 3, neither unchanged nor larger by exactly 1.
\<close>

theorem toggle_latest_counterexample:
  "filledSorted threeDays \<noteq> []
   \<and> \<not> habit_get Workout (habits (hd (filledSorted threeDays)))
   \<and> current (calculateStreak
        (handleHabitChange (id' (hd (filledSorted threeDays))) Workout True threeDays) Workout)
       \<noteq> current (calculateStreak threeDays Workout)
   \<and> current (calculateStreak
        (handleHabitChange (id' (hd (filledSorted threeDays))) Workout True threeDays) Workout)
       \<noteq> current (calculateStreak threeDays Workout) + 1"
  by (simp add: calculateStreak_def filledSorted_def handleHabitChange_def threeDays_def dayRec_def)

section \<open>The metric handler\<close>

lemma numValue_clamp24:
  "Math_min (Fin 24) (Math_max (Fin 0) (js_or x (Fin 0))) = Fin (clamp24 x)"
  by (cases x) (auto simp: Math_min_def Math_max_def js_or_def js_lt_def is_zero_def fin_val_def clamp24_def)

lemma clamp24_range: "0 \<le> clamp24 x \<and> clamp24 x \<le> 24"
  by (cases x) (auto simp: clamp24_def)

lemma parseFloat_empty: "parseFloat [] = NaN"
  by (simp add: parseFloat_def)

lemma metric_get_set: "metric_get m' (metric_set m v ms) = (if m' = m then v else metric_get m' ms)"
  by (cases m; cases m') simp_all

lemma handleMetricChange_clamp24:
  "handleMetricChange i metric v prev =
     map (\<lambda>r. if id' r = i
               then r\<lparr>isFilled := True,
                      metrics := metric_set metric (Fin (clamp24 (parseFloat v))) (metrics r)\<rparr>
               else r) prev"
  by (simp add: handleMetricChange_def Let_def numValue_clamp24)

lemma metric_in_range_clamp24: "metric_in_range (Fin (clamp24 x))"
  using clamp24_range [of x] by (simp add: metric_in_range_def)

lemma handleMetricChange_in_range:
  assumes "\<forall>r \<in> set prev. \<forall>m. metric_in_range (metric_get m (metrics r))"
  shows "\<forall>r \<in> set (handleMetricChange i metric v prev). \<forall>m. metric_in_range (metric_get m (metrics r))"
  using assms
  by (auto simp: handleMetricChange_clamp24 metric_get_set metric_in_range_clamp24)

lemma reachable_metrics:
  "reachable rs \<Longrightarrow> \<forall>r \<in> set rs. \<forall>m. metric_in_range (metric_get m (metrics r))"
proof (induction rule: reachable.induct)
  case (init fmt)
  have "metric_in_range (metric_get m \<lparr>studyHours = Fin 0, timeWasted = Fin 0\<rparr>)" for m
    by (cases m) (simp_all add: metric_in_range_def)
  then show ?case
    by (auto simp: generateInitialData_def)
next
  case (habit rs i h v)
  then show ?case
    by (auto simp: handleHabitChange_def)
next
  case (metric rs i m s)
  from metric.IH show ?case
    by (rule handleMetricChange_in_range)
qed

lemma length_handleMetricChange: "length (handleMetricChange i m v rs) = length rs"
  by (simp add: handleMetricChange_def Let_def)

text \<open>
  C8: the metric handler stores, in every record with the given id, the parsed number clamped
  to \<open>[0, 24]\<close>, a parse that fails (NaN, as for the empty string) counting as 0, and marks
  the record filled.  The stored value lies in \<open>[0, 24]\<close>; hence the handler keeps all
  metrics of a collection in \<open>[0, 24]\<close>, and all metrics of a reachable collection are.
\<close>

theorem metric_change_clamped:
  "handleMetricChange i metric v prev =
     map (\<lambda>r. if id' r = i
               then r\<lparr>isFilled := True,
                      metrics := metric_set metric (Fin (clamp24 (parseFloat v))) (metrics r)\<rparr>
               else r) prev
   \<and> 0 \<le> clamp24 (parseFloat v) \<and> clamp24 (parseFloat v) \<le> 24
   \<and> (parseFloat v = NaN \<longrightarrow> clamp24 (parseFloat v) = 0)
   \<and> parseFloat [] = NaN
   \<and> (\<forall>k < length prev. id' (prev ! k) = i \<longrightarrow>
         metric_get metric (metrics (handleMetricChange i metric v prev ! k)) = Fin (clamp24 (parseFloat v))
         \<and> isFilled (handleMetricChange i metric v prev ! k))
   \<and> ((\<forall>r \<in> set prev. \<forall>m. metric_in_range (metric_get m (metrics r))) \<longrightarrow>
        (\<forall>r \<in> set (handleMetricChange i metric v prev). \<forall>m. metric_in_range (metric_get m (metrics r))))
   \<and> (reachable prev \<longrightarrow> (\<forall>r \<in> set prev. \<forall>m. metric_in_range (metric_get m (metrics r))))"
proof -
  have nan: "parseFloat v = NaN \<longrightarrow> clamp24 (parseFloat v) = 0"
    by (simp add: clamp24_def)
  have stored: "\<forall>k < length prev. id' (prev ! k) = i \<longrightarrow>
         metric_get metric (metrics (handleMetricChange i metric v prev ! k)) = Fin (clamp24 (parseFloat v))
         \<and> isFilled (handleMetricChange i metric v prev ! k)"
    by (simp add: handleMetricChange_clamp24 metric_get_set)
  show ?thesis
    using handleMetricChange_clamp24 [of i metric v prev] clamp24_range [of "parseFloat v"]
      nan parseFloat_empty stored handleMetricChange_in_range [of prev i metric v]
      reachable_metrics [of prev]
    by blast
qed

theorem metric_change_clamped_witness:
  "metric_get StudyHours (metrics (handleMetricChange 2 StudyHours ''25'' twoDays ! 1)) = Fin 24
   \<and> isFilled (handleMetricChange 2 StudyHours ''25'' twoDays ! 1)
   \<and> metric_get StudyHours (metrics (handleMetricChange 2 StudyHours ''abc'' twoDays ! 1)) = Fin 0
   \<and> metric_in_range (metric_get TimeWasted (metrics (handleMetricChange 2 StudyHours ''7.5'' twoDays ! 0)))"
proof -
  have k: "(1::nat) < length twoDays" and day: "id' (twoDays ! 1) = 2"
    by (simp_all add: twoDays_def dayRec_def)
  have big: "clamp24 (parseFloat ''25'') = 24"
    by code_simp
  have invalid: "parseFloat ''abc'' = NaN"
    by code_simp
  have range: "\<forall>r \<in> set twoDays. \<forall>m. metric_in_range (metric_get m (metrics r))"
  proof (intro ballI allI)
    fix r m
    assume "r \<in> set twoDays"
    then show "metric_in_range (metric_get m (metrics r))"
      by (cases m) (auto simp: twoDays_def dayRec_def metric_in_range_def)
  qed
  note thm25 = metric_change_clamped [of 2 StudyHours "''25''" twoDays]
  from thm25 have "\<forall>k < length twoDays. id' (twoDays ! k) = 2 \<longrightarrow>
         metric_get StudyHours (metrics (handleMetricChange 2 StudyHours ''25'' twoDays ! k))
           = Fin (clamp24 (parseFloat ''25''))
         \<and> isFilled (handleMetricChange 2 StudyHours ''25'' twoDays ! k)"
    by simp
  with k day have a: "metric_get StudyHours (metrics (handleMetricChange 2 StudyHours ''25'' twoDays ! 1))
        = Fin (clamp24 (parseFloat ''25''))
      \<and> isFilled (handleMetricChange 2 StudyHours ''25'' twoDays ! 1)"
    by blast
  note thmabc = metric_change_clamped [of 2 StudyHours "''abc''" twoDays]
  from thmabc have zero: "parseFloat ''abc'' = NaN \<longrightarrow> clamp24 (parseFloat ''abc'') = 0"
    and stored: "\<forall>k < length twoDays. id' (twoDays ! k) = 2 \<longrightarrow>
         metric_get StudyHours (metrics (handleMetricChange 2 StudyHours ''abc'' twoDays ! k))
           = Fin (clamp24 (parseFloat ''abc''))
         \<and> isFilled (handleMetricChange 2 StudyHours ''abc'' twoDays ! k)"
    by simp_all
  from zero invalid have "clamp24 (parseFloat ''abc'') = 0"
    by (rule mp)
  with stored k day
  have b: "metric_get StudyHours (metrics (handleMetricChange 2 StudyHours ''abc'' twoDays ! 1)) = Fin 0"
    by simp
  note thm75 = metric_change_clamped [of 2 StudyHours "''7.5''" twoDays]
  from thm75 have "(\<forall>r \<in> set twoDays. \<forall>m. metric_in_range (metric_get m (metrics r))) \<longrightarrow>
      (\<forall>r \<in> set (handleMetricChange 2 StudyHours ''7.5'' twoDays).
          \<forall>m. metric_in_range (metric_get m (metrics r)))"
    by simp
  then have all: "\<forall>r \<in> set (handleMetricChange 2 StudyHours ''7.5'' twoDays).
      \<forall>m. metric_in_range (metric_get m (metrics r))"
    using range by (rule mp)
  have "handleMetricChange 2 StudyHours ''7.5'' twoDays ! 0
      \<in> set (handleMetricChange 2 StudyHours ''7.5'' twoDays)"
    by (rule nth_mem) (simp add: length_handleMetricChange twoDays_def)
  with all have c: "metric_in_range (metric_get TimeWasted
      (metrics (handleMetricChange 2 StudyHours ''7.5'' twoDays ! 0)))"
    by blast
  show ?thesis
    using a b c by (simp add: big)
qed

section \<open>Goal compliance\<close>

subsection \<open>Arithmetic of the two percentages\<close>


lemma js_add_Fin: "js_add (Fin a) (Fin b) = Fin (a + b)"
  by (simp add: js_add_def is_inf_def fin_val_def)

lemma js_mul_Fin_100: "js_mul (Fin y) (Fin 100) = Fin (y * 100)"
  by (simp add: js_mul_def is_inf_def is_zero_def sign_neg_def signed_zero_def fin_val_def)


lemma js_div_nonneg_pos:
  "0 \<le> a \<Longrightarrow> 0 < q \<Longrightarrow> js_div (Fin a) (Fin q) = Fin (a / q)"
  by (simp add: js_div_def is_inf_def is_zero_def sign_neg_def signed_zero_def fin_val_def)


lemma round_le_100:
  fixes y :: rat
  assumes "y \<le> 100"
  shows "(of_int \<lfloor>y + 1 / 2\<rfloor> :: rat) \<le> 100"
proof -
  have "y + 1 / 2 < 101" using assms by simp
  then have "\<lfloor>y + 1 / 2\<rfloor> < 101" by (simp add: floor_less_iff)
  then have "\<lfloor>y + 1 / 2\<rfloor> \<le> 100" by simp
  then show ?thesis by (metis of_int_le_iff of_int_numeral)
qed


lemma scale_le_100:
  fixes x :: rat
  assumes "x \<le> 1"
  shows "x * 100 \<le> 100"
  using assms by simp

lemma round_nonneg:
  fixes y :: rat
  assumes "0 \<le> y"
  shows "0 \<le> (of_int \<lfloor>y + 1 / 2\<rfloor> :: rat)"
  using assms by simp




lemma achievementOf_percentage:
  assumes "finite_nonneg s" and "t \<noteq> NaN"
  shows "is_percentage (achievementOf s t)"
proof -
  from assms(1) obtain a where s: "s = Fin a" and a: "0 \<le> a"
    by (cases s) (auto simp: finite_nonneg_def)
  show ?thesis
  proof (cases "js_ge s t")
    case True
    then show ?thesis
      by (simp add: achievementOf_def is_percentage_def)
  next
    case False
    show ?thesis
    proof (cases t)
      case (Fin q)
      with False s have less: "a < q"
        by (simp add: js_ge_def js_le_def fin_val_def)
      with a have qpos: "0 < q" by simp
      have ratio: "js_div s t = Fin (a / q)"
        using a qpos by (simp add: s Fin js_div_nonneg_pos)
      have lo: "0 \<le> a / q * 100" using a qpos by simp
      have "a / q \<le> 1" using less qpos by simp
      then have hi: "a / q * 100 \<le> 100" by (rule scale_le_100)
      have "Math_round (Fin (a / q * 100)) = Fin (of_int \<lfloor>a / q * 100 + 1 / 2\<rfloor>)"
        using lo by (simp add: Math_round_def)
      then show ?thesis
        using False round_le_100 [OF hi] round_nonneg [OF lo]
        by (simp add: achievementOf_def ratio js_mul_Fin_100 is_percentage_def)
    next
      case NegZero
      with False s a show ?thesis
        by (simp add: js_ge_def js_le_def fin_val_def)
    next
      case PInf
      then show ?thesis
        using False a
        by (simp add: achievementOf_def s js_div_def js_mul_def is_inf_def is_zero_def
            sign_neg_def signed_zero_def fin_val_def Math_round_def is_percentage_def)
    next
      case NInf
      with False s show ?thesis
        by (simp add: js_ge_def js_le_def)
    next
      case NaN
      with assms(2) show ?thesis by simp
    qed
  qed
qed

subsection \<open>The rows of the monthly data\<close>

lemma monthRows_total:
  "set ms \<subseteq> dom goals \<Longrightarrow>
     monthRows g rs goals ms = Inr (map (\<lambda>m. monthEntry g rs (the (goals m)) m) ms)"
  by (induction ms) auto


lemma monthlyData_total:
  "set monthsList \<subseteq> dom goals \<Longrightarrow>
     monthlyData g rs goals = Inr (map (\<lambda>m. monthEntry g rs (the (goals m)) m) monthsList)"
  unfolding monthlyData_def by (rule monthRows_total)


lemma foldl_upd_dom:
  "dom (foldl (\<lambda>g m. g(m \<mapsto> f m)) g0 ms) = dom g0 \<union> set ms"
  by (induction ms arbitrary: g0) auto

lemma foldl_upd_value:
  "m \<in> set ms \<Longrightarrow> foldl (\<lambda>g m. g(m \<mapsto> f m)) g0 ms m = Some (f m)"
  by (induction ms arbitrary: g0 rule: rev_induct) auto

lemma dom_initialGoals: "dom initialGoals = set monthsList"
  unfolding initialGoals_def by (simp add: foldl_upd_dom)

lemma reachableGoals_dom: "reachableGoals goals \<Longrightarrow> set monthsList \<subseteq> dom goals"
  by (induction rule: reachableGoals.induct) (auto simp: dom_initialGoals updateGoal_def Let_def)

lemma js_or_not_NaN: "js_or x (Fin 0) \<noteq> NaN"
  by (simp add: js_or_def)

lemma initialGoals_month:
  "m \<in> set monthsList \<Longrightarrow>
     initialGoals m = Some \<lparr>month = Str m, studyTarget = Fin 150, wasteLimit = Fin 30\<rparr>"
  unfolding initialGoals_def by (rule foldl_upd_value)

lemma reachableGoals_numbers:
  "reachableGoals goals \<Longrightarrow> m \<in> set monthsList \<Longrightarrow>
     \<exists>goal. goals m = Some goal \<and> studyTarget goal \<noteq> NaN \<and> wasteLimit goal \<noteq> NaN"
proof (induction rule: reachableGoals.induct)
  case init_goals
  then show ?case
    by (simp add: initialGoals_month)
next
  case (update g m' field v)
  then obtain goal where goal: "g m = Some goal" "studyTarget goal \<noteq> NaN" "wasteLimit goal \<noteq> NaN"
    by auto
  show ?case
  proof (cases "m = m'")
    case True
    with goal show ?thesis
      by (cases field) (simp_all add: updateGoal_def Let_def js_or_not_NaN)
  next
    case False
    with goal show ?thesis
      by (simp add: updateGoal_def Let_def)
  qed
qed

lemma foldl_stats_nonneg:
  assumes "\<forall>r \<in> set rs. \<forall>m. metric_in_range (metric_get m (metrics r))"
    and "finite_nonneg (fst acc)" and "finite_nonneg (snd acc)"
  shows "finite_nonneg (fst (foldl (\<lambda>acc r. (js_add (fst acc) (studyHours (metrics r)),
                     js_add (snd acc) (timeWasted (metrics r)))) acc rs))
       \<and> finite_nonneg (snd (foldl (\<lambda>acc r. (js_add (fst acc) (studyHours (metrics r)),
                     js_add (snd acc) (timeWasted (metrics r)))) acc rs))"
  using assms
proof (induction rs arbitrary: acc)
  case Nil
  then show ?case by simp
next
  case (Cons r rs)
  have add: "finite_nonneg (js_add x y)" if "finite_nonneg x" and "metric_in_range y" for x y
    using that by (cases x; cases y) (auto simp: finite_nonneg_def metric_in_range_def js_add_Fin)
  have "metric_in_range (studyHours (metrics r))"
    using Cons.prems(1) [rule_format, of r StudyHours] by simp
  moreover have "metric_in_range (timeWasted (metrics r))"
    using Cons.prems(1) [rule_format, of r TimeWasted] by simp
  ultimately have "finite_nonneg (js_add (fst acc) (studyHours (metrics r)))"
    and "finite_nonneg (js_add (snd acc) (timeWasted (metrics r)))"
    using Cons.prems(2,3) by (simp_all add: add)
  with Cons.IH [of "(js_add (fst acc) (studyHours (metrics r)),
      js_add (snd acc) (timeWasted (metrics r)))"] Cons.prems(1)
  show ?case by simp
qed

lemma monthStats_nonneg:
  assumes "\<forall>r \<in> set rs. \<forall>m. metric_in_range (metric_get m (metrics r))"
  shows "finite_nonneg (fst (monthStats g rs m)) \<and> finite_nonneg (snd (monthStats g rs m))"
  unfolding monthStats_def
  using assms by (intro foldl_stats_nonneg) (auto simp: finite_nonneg_def)

lemma foldl_stats_zero:
  assumes "\<forall>r \<in> set rs. metrics r = \<lparr>studyHours = Fin 0, timeWasted = Fin 0\<rparr>"
  shows "foldl (\<lambda>acc r. (js_add (fst acc) (studyHours (metrics r)),
                     js_add (snd acc) (timeWasted (metrics r)))) (Fin 0, Fin 0) rs = (Fin 0, Fin 0)"
  using assms by (induction rs) (simp_all add: js_add_Fin)

lemma monthStats_initial: "monthStats g (generateInitialData fmt) m = (Fin 0, Fin 0)"
  unfolding monthStats_def
  by (rule foldl_stats_zero) (auto simp: generateInitialData_def)

lemma January_month: "''January'' \<in> set monthsList"
  by (simp add: monthsList_def)


lemma parse_minus_one: "js_or (parseFloat ''-1'') (Fin 0) = Fin (- 1)"
  by code_simp

lemma parse_zero: "js_or (parseFloat ''0'') (Fin 0) = Fin 0"
  by code_simp

lemma negativeLimitGoals_January:
  "negativeLimitGoals ''January''
     = Some \<lparr>month = Str ''January'', studyTarget = Fin 150, wasteLimit = Fin (- 1)\<rparr>"
  by (simp add: negativeLimitGoals_def updateGoal_def Let_def parse_minus_one
      initialGoals_month [OF January_month])

lemma zeroGoals_January:
  "zeroGoals ''January''
     = Some \<lparr>month = Str ''January'', studyTarget = Fin 0, wasteLimit = Fin 0\<rparr>"
  by (simp add: zeroGoals_def updateGoal_def Let_def parse_zero
      initialGoals_month [OF January_month])

lemma reachable_negativeLimitGoals: "reachableGoals negativeLimitGoals"
  unfolding negativeLimitGoals_def by (intro reachableGoals.update reachableGoals.init_goals)




lemma wasteCompliance_negative_limit: "wasteComplianceOf (Fin 0) (Fin (- 1)) = Fin 200"
  by code_simp



subsection \<open>Waste compliance\<close>

lemma reachable_metrics_nonneg:
  assumes "reachable records"
  shows "finite_nonneg (fst (monthStats gmn records m)) \<and> finite_nonneg (snd (monthStats gmn records m))"
  using reachable_metrics [OF assms] by (rule monthStats_nonneg)

lemma monthEntry_fields:
  "actualStudy (monthEntry gmn records goal m) = fst (monthStats gmn records m)"
  "goalStudy (monthEntry gmn records goal m) = studyTarget goal"
  "actualWaste (monthEntry gmn records goal m) = snd (monthStats gmn records m)"
  "limitWaste (monthEntry gmn records goal m) = wasteLimit goal"
  "achievement (monthEntry gmn records goal m)
     = achievementOf (fst (monthStats gmn records m)) (studyTarget goal)"
  "wasteCompliance (monthEntry gmn records goal m)
     = wasteComplianceOf (snd (monthStats gmn records m)) (wasteLimit goal)"
  by (simp_all add: monthEntry_def Let_def)






subsection \<open>Achievement\<close>



lemma achievement_reachable_percentage:
  assumes "reachable records" and "reachableGoals goals" and "m \<in> set monthsList"
  shows "\<exists>goal. goals m = Some goal
    \<and> is_percentage (achievement (monthEntry gmn records goal m))"
proof -
  from reachableGoals_numbers [OF assms(2,3)]
  obtain goal where goal: "goals m = Some goal" and target: "studyTarget goal \<noteq> NaN"
    by auto
  have "finite_nonneg (fst (monthStats gmn records m))"
    using reachable_metrics_nonneg [OF assms(1)] by simp
  then have "is_percentage (achievementOf (fst (monthStats gmn records m)) (studyTarget goal))"
    using target by (rule achievementOf_percentage)
  with goal show ?thesis
    by (simp add: monthEntry_fields)
qed




subsection \<open>Range of the percentages\<close>

text \<open>
  C5: the goal edit accepts \<^verbatim>\<open>-1\<close> as the waste limit of January; on the initial data, where
  no time is wasted, \<open>monthlyData\<close> then reports a \<open>wasteCompliance\<close> of 200 for January,
  which is not in \<open>[0, 100]\<close>.
\<close>

theorem negative_limit_exceeds_100:
  "reachableGoals negativeLimitGoals
   \<and> reachable (generateInitialData fmt)
   \<and> monthlyData gmn (generateInitialData fmt) negativeLimitGoals
       = Inr (map (\<lambda>m. monthEntry gmn (generateInitialData fmt) (the (negativeLimitGoals m)) m)
           monthsList)
   \<and> wasteCompliance (monthEntry gmn (generateInitialData fmt)
         (the (negativeLimitGoals ''January'')) ''January'') = Fin 200
   \<and> \<not> is_percentage (wasteCompliance (monthEntry gmn (generateInitialData fmt)
         (the (negativeLimitGoals ''January'')) ''January''))"
proof -
  have rows: "monthlyData gmn (generateInitialData fmt) negativeLimitGoals
       = Inr (map (\<lambda>m. monthEntry gmn (generateInitialData fmt) (the (negativeLimitGoals m)) m)
           monthsList)"
    using reachable_negativeLimitGoals by (simp add: monthlyData_total reachableGoals_dom)
  have twohundred: "wasteCompliance (monthEntry gmn (generateInitialData fmt)
         (the (negativeLimitGoals ''January'')) ''January'') = Fin 200"
    by (simp add: monthEntry_fields monthStats_initial negativeLimitGoals_January
        wasteCompliance_negative_limit)
  have "\<not> is_percentage (Fin 200)"
    by (simp add: is_percentage_def)
  with rows twohundred reachable_negativeLimitGoals reachable.init [of fmt] show ?thesis
    by simp
qed

end
